theory Spec2Isabelle
  imports Complex_Main
begin

section \<open>The Keithley 2400 source meter driver\<close>

text \<open>
  A shallow embedding of \<^verbatim>\<open>Keithley_2400_SM.py\<close>. The value of a Python float is a
  \<^typ>\<open>real\<close>, and the rounding of a value in its last place is left out. Where the source
  turns a float into an integer (the floor that counts the ramp steps, the ceiling that
  selects the range) the rounding decides the result, and there the floating-point
  machine is a parameter of the model. The driver object is a record that every method
  takes and returns; a method that can raise returns a sum whose left side is the
  exception. \<^verbatim>\<open>time.sleep\<close> changes nothing that the model observes and is left out.
\<close>

subsection \<open>Values, errors, state\<close>

text \<open>
  A configuration value is what the Python passes to or receives from the parameter cache:
  nothing (\<^verbatim>\<open>None\<close>), a string or a number. Python compares \<^verbatim>\<open>1\<close> and \<^verbatim>\<open>1.0\<close>
  as equal, so one numeric constructor is enough.
\<close>

datatype pval = PNone | PStr string | PNum real

text \<open>
  The exceptions of the modelled paths. \<open>NonFinite\<close> is not a Python exception: it marks
  the replies that Python converts to an infinity or to NaN, floats that are no real
  numbers.
\<close>

datatype error =
  ValueError | IndexError | TypeError | ZeroDivisionError | OverflowError | NonFinite

text \<open>A float as the interpreter holds it: a number, an infinity or not a number.\<close>

datatype fval = Finite real | Infinite | NaN

text \<open>
  The floating-point machine. \<open>stepQuotient M temp target step\<close> is the float that the
  machine computes for \<^verbatim>\<open>abs(temp - target) / step\<close> when \<open>step\<close> is not zero: the rounded
  quotient of the rounded difference, infinite when the division overflows.
  \<open>np_log10 M x\<close> is the float that \<^verbatim>\<open>np.log10\<close> returns for a positive \<open>x\<close>. Nothing is
  assumed of either: what is proved for every machine holds of the one the driver runs
  on. The numbers that enter are Python numbers, as a caller writes them.
\<close>

record machine =
  stepQuotient :: "real \<Rightarrow> real \<Rightarrow> real \<Rightarrow> fval"
  np_log10 :: "real \<Rightarrow> real"

type_synonym hwrite = "string \<times> pval"

text \<open>
  The instrument behind the transport is a parameter of the model. What it answers may
  depend on everything written to it so far.
\<close>

record instrument =
  hwQuery :: "hwrite list \<Rightarrow> string \<Rightarrow> pval"
  query :: "hwrite list \<Rightarrow> string \<Rightarrow> string"

text \<open>
  The driver instance: the two persisted setpoints (class attributes, initially 0), the two
  step sizes (\<^verbatim>\<open>None\<close> disables ramping), the parameter cache, the hardware writes issued
  so far in order, and the lines printed so far (each line the list of the arguments of
  one \<^verbatim>\<open>print\<close>).
\<close>

record driver =
  latestCurrentVal :: real
  latestVoltageVal :: real
  currStep :: "real option"
  voltStep :: "real option"
  config :: "string \<rightharpoonup> pval"
  sent :: "hwrite list"
  printed :: "pval list list"

subsection \<open>The parameter cache\<close>

text \<open>
  Modelled from the spec: the class \<^verbatim>\<open>Configurable\<close> is not among the sources.
  \<^verbatim>\<open>setConfigParam(key, value)\<close> "records desired value and writes it to hardware".
\<close>

definition setConfigParam :: "string \<Rightarrow> pval \<Rightarrow> driver \<Rightarrow> driver" where
  "setConfigParam k v s = s\<lparr>config := (config s)(k \<mapsto> v), sent := sent s @ [(k, v)]\<rparr>"

text \<open>
  Modelled from the spec: \<^verbatim>\<open>getConfigParam(key, forceHardware)\<close> "returns cached or (if
  forced) freshly-queried hardware value". A parameter that was never recorded can only
  come from the instrument.
\<close>

definition getConfigParam :: "instrument \<Rightarrow> string \<Rightarrow> bool \<Rightarrow> driver \<Rightarrow> pval" where
  "getConfigParam I k forceHardware s =
     (if forceHardware then hwQuery I (sent s) k
      else (case config s k of Some v \<Rightarrow> v | None \<Rightarrow> hwQuery I (sent s) k))"

subsection \<open>The numpy functions the driver calls\<close>

text \<open>\<^verbatim>\<open>np.clip(x, a_min, a_max)\<close> is \<^verbatim>\<open>minimum(a_max, maximum(x, a_min))\<close>.\<close>

definition clip :: "real \<Rightarrow> real \<Rightarrow> real \<Rightarrow> real" where
  "clip x a_min a_max = min a_max (max x a_min)"

text \<open>
  \<^verbatim>\<open>np.linspace(start, stop, num)\<close>: \<open>num\<close> samples \<open>start + i * step\<close> with
  \<open>step = (stop - start) / (num - 1)\<close>, the last one overwritten with \<open>stop\<close> when
  \<open>num > 1\<close>; the single sample \<open>start\<close> when \<open>num = 1\<close>; no sample when \<open>num = 0\<close>.
  A negative \<open>num\<close> raises ValueError, which the caller below checks before calling.
\<close>

definition linspace :: "real \<Rightarrow> real \<Rightarrow> nat \<Rightarrow> real list" where
  "linspace start stop num =
     (if num = 0 then []
      else if num = 1 then [start]
      else map (\<lambda>i. start + real i * ((stop - start) / real (num - 1))) [0..<num - 1] @ [stop])"

text \<open>
  The expression \<^verbatim>\<open>10 ** np.ceil(np.log10(abs(x)))\<close> of both configuration methods:
  the ceiling is that of the float which \<^verbatim>\<open>np.log10\<close> returns.
\<close>

definition needRange :: "machine \<Rightarrow> real \<Rightarrow> real" where
  "needRange M x = 10 powr real_of_int \<lceil>np_log10 M \<bar>x\<bar>\<rceil>"

subsection \<open>Setting the source value\<close>

text \<open>\<^verbatim>\<open>_configCurrent\<close> (the leading underscore is not part of an Isabelle name).\<close>

definition configCurrent :: "machine \<Rightarrow> real \<Rightarrow> driver \<Rightarrow> driver" where
  "configCurrent M currAmps0 s =
     (let currAmps = clip currAmps0 (1 / 1000000) 1;
          s1 = (if currAmps \<noteq> 0
                then setConfigParam ''SOURCE:CURR:RANGE'' (PNum (needRange M currAmps)) s
                else s);
          s2 = setConfigParam ''SOURCE:CURR'' (PNum currAmps) s1
      in s2\<lparr>latestCurrentVal := currAmps\<rparr>)"

text \<open>\<^verbatim>\<open>_configVoltage\<close>.\<close>

definition configVoltage :: "machine \<Rightarrow> real \<Rightarrow> driver \<Rightarrow> driver" where
  "configVoltage M voltVolts s =
     (let s1 = (if voltVolts \<noteq> 0
                then setConfigParam ''SOURCE:VOLT:RANGE'' (PNum (needRange M voltVolts)) s
                else s);
          s2 = setConfigParam ''SOURCE:VOLT'' (PNum voltVolts) s1
      in s2\<lparr>latestVoltageVal := voltVolts\<rparr>)"

text \<open>
  \<^verbatim>\<open>enable()\<close> with no argument skips both of its conditionals and only executes its last
  two lines. \<^verbatim>\<open>setCurrent\<close> and \<^verbatim>\<open>setVoltage\<close> call it in that form only, so the
  model gives the two lines a name of their own; \<open>enable_None\<close> below shows that
  \<open>enable\<close> with \<open>None\<close> is this function.
\<close>

definition enable_get :: "instrument \<Rightarrow> driver \<Rightarrow> bool" where
  "enable_get I s =
     (let retVal = getConfigParam I ''OUTP:STATE'' True s
      in retVal \<in> set [PStr ''ON'', PNum 1, PStr ''1''])"

text \<open>
  The ramp of \<^verbatim>\<open>setCurrent\<close> and \<^verbatim>\<open>setVoltage\<close>: the step count
  \<^verbatim>\<open>int(np.floor(abs(temp - target) / step))\<close> and the loop over
  \<^verbatim>\<open>np.linspace(temp, target, 1 + nSteps)[1:]\<close> that calls \<^verbatim>\<open>_configCurrent\<close> on each
  point. The quotient is the machine's. With a zero step, Python floats raise
  ZeroDivisionError at the division; if \<open>temp\<close> is a numpy float (\<open>numpy\<close>) the division
  gives NaN for a zero distance and infinity otherwise. \<^verbatim>\<open>np.floor\<close> keeps both, and
  \<^verbatim>\<open>int\<close> raises ValueError on NaN and OverflowError on infinity. A negative
  \<open>1 + nSteps\<close> makes \<^verbatim>\<open>np.linspace\<close> raise ValueError. All of this happens before the
  first write.
\<close>

definition rampCurrent ::
  "machine \<Rightarrow> bool \<Rightarrow> real \<Rightarrow> real \<Rightarrow> real \<Rightarrow> driver \<Rightarrow> error + driver" where
  "rampCurrent M numpy temp target step s =
     (case (if step = 0
            then (if numpy then Inr (if temp = target then NaN else Infinite)
                  else Inl ZeroDivisionError)
            else Inr (stepQuotient M temp target step)) of
        Inl e \<Rightarrow> Inl e
      | Inr NaN \<Rightarrow> Inl ValueError
      | Inr Infinite \<Rightarrow> Inl OverflowError
      | Inr (Finite q) \<Rightarrow>
          (let nSteps = \<lfloor>q\<rfloor>
           in if 1 + nSteps < 0 then Inl ValueError
              else Inr (foldl (\<lambda>s' curr. configCurrent M curr s') s
                          (tl (linspace temp target (nat (1 + nSteps)))))))"

text \<open>
  \<^verbatim>\<open>setCurrent\<close>. The persisted current is the Python int 0 of the class until
  \<^verbatim>\<open>_configCurrent\<close> stores a numpy float, and what it stores is at least 1e-6: the
  persisted current is a numpy float exactly when it is not 0.
\<close>

definition setCurrent :: "machine \<Rightarrow> instrument \<Rightarrow> real \<Rightarrow> driver \<Rightarrow> error + driver" where
  "setCurrent M I currAmps s =
     (let currTemp = latestCurrentVal s
      in if \<not> enable_get I s \<or> currStep s = None then Inr (configCurrent M currAmps s)
         else rampCurrent M (currTemp \<noteq> 0) currTemp currAmps (the (currStep s)) s)"

text \<open>
  \<^verbatim>\<open>setVoltage\<close> calls \<^verbatim>\<open>_configCurrent\<close> on both of its paths, as the source does.
  The persisted voltage is a Python number: only \<^verbatim>\<open>_configVoltage\<close> stores it, as it
  was passed.
\<close>

definition setVoltage :: "machine \<Rightarrow> instrument \<Rightarrow> real \<Rightarrow> driver \<Rightarrow> error + driver" where
  "setVoltage M I voltVolts s =
     (let voltTemp = latestVoltageVal s
      in if \<not> enable_get I s \<or> voltStep s = None then Inr (configCurrent M voltVolts s)
         else rampCurrent M False voltTemp voltVolts (the (voltStep s)) s)"

subsection \<open>Enabling the output\<close>

definition enable :: "machine \<Rightarrow> instrument \<Rightarrow> bool option \<Rightarrow> driver \<Rightarrow> error + bool \<times> driver" where
  "enable M I newState s =
     (case (if newState = Some False
            then (if getConfigParam I ''SOURCE:FUNC'' False s = PStr ''CURR''
                  then setCurrent M I 0 s
                  else setVoltage M I 0 s)
            else Inr s) of
        Inl e \<Rightarrow> Inl e
      | Inr s1 \<Rightarrow>
          (let s2 = (case newState of
                       None \<Rightarrow> s1
                     | Some b \<Rightarrow> setConfigParam ''OUTP:STATE'' (PNum (if b then 1 else 0)) s1);
               retVal = getConfigParam I ''OUTP:STATE'' True s2
           in Inr (retVal \<in> set [PStr ''ON'', PNum 1, PStr ''1''], s2)))"

subsection \<open>Port and source mode\<close>

definition setPort :: "string \<Rightarrow> driver \<Rightarrow> error + driver" where
  "setPort port s =
     (if port = ''Front'' then Inr (setConfigParam ''ROUT:TERM'' (PStr ''FRON'') s)
      else if port = ''Rear'' then Inr (setConfigParam ''ROUT:TERM'' (PStr ''REAR'') s)
      else Inr s)"

definition setProtectionVoltage :: "pval \<Rightarrow> driver \<Rightarrow> driver" where
  "setProtectionVoltage protectionVoltage s = setConfigParam ''VOLT:PROT'' protectionVoltage s"

definition setProtectionCurrent :: "pval \<Rightarrow> driver \<Rightarrow> driver" where
  "setProtectionCurrent protectionCurrent s = setConfigParam ''CURR:PROT'' protectionCurrent s"

definition protectionVoltage :: "instrument \<Rightarrow> driver \<Rightarrow> pval" where
  "protectionVoltage I s = getConfigParam I ''VOLT:PROT'' False s"

definition protectionCurrent :: "instrument \<Rightarrow> driver \<Rightarrow> pval" where
  "protectionCurrent I s = getConfigParam I ''CURR:PROT'' False s"

text \<open>\<^verbatim>\<open>__setSourceMode\<close>.\<close>

definition setSourceMode :: "bool \<Rightarrow> driver \<Rightarrow> driver" where
  "setSourceMode isCurrentSource s =
     (let (sourceStr, meterStr) =
            (if isCurrentSource then (''CURR'', ''VOLT'') else (''VOLT'', ''CURR''));
          s1 = setConfigParam ''SOURCE:FUNC'' (PStr sourceStr) s;
          s2 = setConfigParam (''SOURCE:'' @ sourceStr @ '':MODE'') (PStr ''FIXED'') s1;
          s3 = setConfigParam ''SENSE:FUNCTION:OFF:ALL'' PNone s2;
          s4 = setConfigParam ''SENSE:FUNCTION:ON'' (PStr ([CHR 0x22] @ meterStr @ [CHR 0x22])) s3;
          s5 = setConfigParam (''SENSE:'' @ meterStr @ '':RANGE:AUTO'') (PStr ''ON'') s4
      in setConfigParam ''RES:MODE'' (PStr ''MAN'') s5)"

definition setVoltageMode :: "machine \<Rightarrow> instrument \<Rightarrow> pval \<Rightarrow> driver \<Rightarrow> error + driver" where
  "setVoltageMode M I protCurrent s =
     (case enable M I (Some False) s of
        Inl e \<Rightarrow> Inl e
      | Inr (_, s1) \<Rightarrow>
          Inr (configVoltage M 0 (setProtectionCurrent protCurrent (setSourceMode False s1))))"

definition setCurrentMode :: "machine \<Rightarrow> instrument \<Rightarrow> pval \<Rightarrow> driver \<Rightarrow> error + driver" where
  "setCurrentMode M I protVoltage s =
     (case enable M I (Some False) s of
        Inl e \<Rightarrow> Inl e
      | Inr (_, s1) \<Rightarrow>
          Inr (configCurrent M 0 (setProtectionVoltage protVoltage (setSourceMode True s1))))"

subsection \<open>Parsing a measurement reply\<close>

text \<open>
  \<^verbatim>\<open>str.split(sep)\<close> with a one-character separator: the fields between the
  separators, one more than there are separators.
\<close>

fun str_split :: "char \<Rightarrow> string \<Rightarrow> string list" where
  "str_split sep [] = [[]]"
| "str_split sep (c # cs) =
     (if c = sep then [] # str_split sep cs
      else (case str_split sep cs of f # fs \<Rightarrow> (c # f) # fs | [] \<Rightarrow> [[c]]))"

text \<open>Indexing a Python list with a non-negative index.\<close>

definition index :: "'a list \<Rightarrow> nat \<Rightarrow> error + 'a" where
  "index xs i = (if i < length xs then Inr (xs ! i) else Inl IndexError)"

text \<open>
  \<^verbatim>\<open>float(str)\<close>, after the grammar of the language reference, on ASCII strings:
  surrounding whitespace is stripped; then an optional sign; then \<^verbatim>\<open>inf\<close>,
  \<^verbatim>\<open>infinity\<close> or \<^verbatim>\<open>nan\<close> in any case, or a number
  \<^verbatim>\<open>[digitpart] "." digitpart | digitpart ["."]\<close> with an optional exponent
  \<^verbatim>\<open>("e" | "E") [sign] digitpart\<close>, where a digitpart is
  \<^verbatim>\<open>digit (["_"] digit)*\<close>. The whitespace that is stripped is the space and the
  characters 9 to 13. The value is the decimal's exact value; a decimal that rounds to
  no finite double, from \<open>2 ^ 1024 - 2 ^ 970\<close> on, is read as an infinity.
\<close>

definition is_space :: "char \<Rightarrow> bool" where
  "is_space c = (let n = (of_char c :: nat) in (9 \<le> n \<and> n \<le> 13) \<or> n = 32)"

definition strip :: "string \<Rightarrow> string" where
  "strip s = rev (dropWhile is_space (rev (dropWhile is_space s)))"

definition lower :: "char \<Rightarrow> char" where
  "lower c = (let n = (of_char c :: nat) in if 65 \<le> n \<and> n \<le> 90 then char_of (n + 32) else c)"

definition is_digit :: "char \<Rightarrow> bool" where
  "is_digit c = (c \<in> set ''0123456789'')"

definition digit_val :: "char \<Rightarrow> nat" where
  "digit_val c = of_char c - 48"

text \<open>
  The rest of a digitpart after a digit: the value so far and the number of digits so
  far are carried along.
\<close>

fun digits_rest :: "nat \<Rightarrow> nat \<Rightarrow> string \<Rightarrow> (nat \<times> nat) option" where
  "digits_rest v n [] = Some (v, n)"
| "digits_rest v n (c # cs) =
     (if is_digit c then digits_rest (10 * v + digit_val c) (Suc n) cs
      else if c = CHR ''_'' then
        (case cs of
           [] \<Rightarrow> None
         | d # ds \<Rightarrow> if is_digit d then digits_rest (10 * v + digit_val d) (Suc n) ds else None)
      else None)"

definition digitpart :: "string \<Rightarrow> (nat \<times> nat) option" where
  "digitpart s =
     (case s of
        [] \<Rightarrow> None
      | c # cs \<Rightarrow> if is_digit c then digits_rest (digit_val c) 1 cs else None)"

text \<open>The text before the first character that satisfies \<open>P\<close>, and the text after it if there is one.\<close>

definition split_first :: "(char \<Rightarrow> bool) \<Rightarrow> string \<Rightarrow> string \<times> string option" where
  "split_first P s =
     (case dropWhile (\<lambda>c. \<not> P c) s of
        [] \<Rightarrow> (s, None)
      | _ # r \<Rightarrow> (takeWhile (\<lambda>c. \<not> P c) s, Some r))"

definition number :: "string \<Rightarrow> real option" where
  "number m =
     (case split_first (\<lambda>c. c = CHR ''.'') m of
        (ip, None) \<Rightarrow> map_option (\<lambda>(v, n). real v) (digitpart ip)
      | (ip, Some fp) \<Rightarrow>
          (if ip = [] then map_option (\<lambda>(v, n). real v / 10 ^ n) (digitpart fp)
           else (case digitpart ip of
                   None \<Rightarrow> None
                 | Some (iv, _) \<Rightarrow>
                     if fp = [] then Some (real iv)
                     else map_option (\<lambda>(v, n). real iv + real v / 10 ^ n) (digitpart fp))))"

definition exponent :: "string \<Rightarrow> int option" where
  "exponent e =
     (case e of
        [] \<Rightarrow> None
      | c # r \<Rightarrow>
          if c = CHR ''+'' then map_option (\<lambda>(v, n). int v) (digitpart r)
          else if c = CHR ''-'' then map_option (\<lambda>(v, n). - int v) (digitpart r)
          else map_option (\<lambda>(v, n). int v) (digitpart e))"

definition floatnumber :: "string \<Rightarrow> real option" where
  "floatnumber t =
     (case split_first (\<lambda>c. c = CHR ''e'' \<or> c = CHR ''E'') t of
        (m, None) \<Rightarrow> number m
      | (m, Some e) \<Rightarrow>
          (case number m of
             None \<Rightarrow> None
           | Some x \<Rightarrow>
               (case exponent e of
                  None \<Rightarrow> None
                | Some k \<Rightarrow> Some (if 0 \<le> k then x * 10 ^ nat k else x / 10 ^ nat (- k)))))"

definition py_float :: "string \<Rightarrow> error + real" where
  "py_float str =
     (let t = strip str;
          (neg, u) = (case t of
                        [] \<Rightarrow> (False, t)
                      | c # r \<Rightarrow> if c = CHR ''-'' then (True, r)
                                else if c = CHR ''+'' then (False, r)
                                else (False, t))
      in if map lower u \<in> set [''inf'', ''infinity'', ''nan''] then Inl NonFinite
         else (case floatnumber u of
                 None \<Rightarrow> Inl ValueError
               | Some x \<Rightarrow>
                   if 2 ^ 1024 - 2 ^ 970 \<le> x then Inl NonFinite
                   else Inr (if neg then - x else x)))"

subsection \<open>Measuring\<close>

text \<open>
  The comparison \<^verbatim>\<open>v >= limit\<close> of a float with a cached protection limit: Python
  raises TypeError when the limit is a string or \<^verbatim>\<open>None\<close>.
\<close>

definition ge_limit :: "real \<Rightarrow> pval \<Rightarrow> error + bool" where
  "ge_limit v prot = (case prot of PNum l \<Rightarrow> Inr (l \<le> v) | _ \<Rightarrow> Inl TypeError)"

definition measVoltage :: "instrument \<Rightarrow> driver \<Rightarrow> error + real \<times> driver" where
  "measVoltage I s =
     (let retStr = query I (sent s) ''MEASURE:VOLT?''
      in case index (str_split CHR '','' retStr) 0 of
           Inl e \<Rightarrow> Inl e
         | Inr field \<Rightarrow>
             (case py_float field of
                Inl e \<Rightarrow> Inl e
              | Inr v \<Rightarrow>
                  (case ge_limit v (protectionVoltage I s) of
                     Inl e \<Rightarrow> Inl e
                   | Inr reached \<Rightarrow>
                       Inr (v,
                         if reached
                         then s\<lparr>printed := printed s @
                                [[PStr ''Warning: Keithley compliance voltage of'',
                                  protectionVoltage I s, PStr ''reached.''],
                                 [PStr ''Warning: You are sourcing'',
                                  PNum (v * latestCurrentVal s * (1 / 1000)),
                                  PStr ''mW into the load.'']]\<rparr>
                         else s))))"

definition measCurrent :: "instrument \<Rightarrow> driver \<Rightarrow> error + real \<times> driver" where
  "measCurrent I s =
     (let retStr = query I (sent s) ''MEASURE:CURR?''
      in case index (str_split CHR '','' retStr) 1 of
           Inl e \<Rightarrow> Inl e
         | Inr field \<Rightarrow>
             (case py_float field of
                Inl e \<Rightarrow> Inl e
              | Inr i \<Rightarrow>
                  (case ge_limit i (protectionCurrent I s) of
                     Inl e \<Rightarrow> Inl e
                   | Inr reached \<Rightarrow>
                       Inr (i,
                         if reached
                         then s\<lparr>printed := printed s @
                                [[PStr ''Warning: Keithley compliance current of'',
                                  protectionCurrent I s, PStr ''reached.''],
                                 [PStr ''Warning: You are sourcing'',
                                  PNum (i * latestVoltageVal s * (1 / 1000)),
                                  PStr ''mW into the load.'']]\<rparr>
                         else s))))"

subsection \<open>Construction, and an instrument to run the driver against\<close>

text \<open>
  \<^verbatim>\<open>__init__\<close> with its four keyword arguments; \<open>default_driver\<close> is the instance that
  the defaults give (4 V, 200 mA, 1 mA per step, 0.1 V per step).
\<close>

definition init :: "pval \<Rightarrow> pval \<Rightarrow> real option \<Rightarrow> real option \<Rightarrow> driver" where
  "init protVoltage protCurrent cStep vStep =
     (let s0 = \<lparr>latestCurrentVal = 0, latestVoltageVal = 0, currStep = None, voltStep = None,
                 config = Map.empty, sent = [], printed = []\<rparr>;
          s1 = setProtectionVoltage protVoltage s0;
          s2 = setProtectionCurrent protCurrent s1
      in s2\<lparr>currStep := cStep, voltStep := vStep\<rparr>)"

definition default_driver :: driver where
  "default_driver = init (PNum 4) (PNum (200 / 1000)) (Some (1 / 1000)) (Some (1 / 10))"

text \<open>
  An instrument for the concrete runs below: a forced read of a parameter answers the
  value written to it last (the string 0 when it was never written), and every
  measurement query is answered with one fixed reply.
\<close>

definition echo_instrument :: "string \<Rightarrow> instrument" where
  "echo_instrument reply =
     \<lparr>hwQuery = (\<lambda>ws k. case map_of (rev ws) k of Some v \<Rightarrow> v | None \<Rightarrow> PStr ''0''),
      query = (\<lambda>ws q. reply)\<rparr>"

text \<open>
  The machine that does not round. The concrete runs below use it on numbers for which
  the floating-point machine gives the same step count and the same ceiling of the
  logarithm.
\<close>

definition exact_machine :: machine where
  "exact_machine =
     \<lparr>stepQuotient = (\<lambda>temp target step. Finite (\<bar>temp - target\<bar> / step)),
      np_log10 = log 10\<rparr>"

text \<open>
  A machine that is exact but at two places where the floating-point machine is known
  to round to the other side of an integer. For the change from 3 mA to 9 mA at a step
  of 1 mA it computes the quotient 5.999999999999999, the double \<open>6 - 2 ^ -50\<close>. For the
  double next above the double of 0.01, written 0.010000000000000002, \<^verbatim>\<open>np.log10\<close>
  returns -2.0, the double nearest to the logarithm (\<open>log10_edge_rounds\<close> below: the
  logarithm exceeds -2 by less than half the distance to the next double).
\<close>

definition edge_value :: real where
  "edge_value = 1441151880758559 / 2 ^ 57"

definition rounding_machine :: machine where
  "rounding_machine =
     \<lparr>stepQuotient =
        (\<lambda>temp target step.
           if temp = 3 / 1000 \<and> target = 9 / 1000 \<and> step = 1 / 1000
           then Finite (6 - 1 / 2 ^ 50)
           else Finite (\<bar>temp - target\<bar> / step)),
      np_log10 = (\<lambda>x. if x = edge_value then - 2 else log 10 x)\<rparr>"

text \<open>
  A driver in the middle of work, with current step \<open>st\<close>: the state that
  \<^verbatim>\<open>__setSourceMode(True)\<close>, the write of OUTP:STATE 1 and \<^verbatim>\<open>_configCurrent(c)\<close>
  leave on a driver constructed with that step. It sources current, its output is on and
  its persisted current is the clamped \<open>c\<close>.
\<close>

definition running_driver :: "machine \<Rightarrow> real \<Rightarrow> real \<Rightarrow> driver" where
  "running_driver M st c =
     configCurrent M c
       (setConfigParam ''OUTP:STATE'' (PNum 1)
          (setSourceMode True (init (PNum 4) (PNum (200 / 1000)) (Some st) (Some (1 / 10)))))"

subsection \<open>What a run wrote\<close>

text \<open>
  The two writes of one \<^verbatim>\<open>_configCurrent\<close> call that commands the value \<open>c\<close>, and the
  values a list of writes gave the parameter \<^verbatim>\<open>SOURCE:CURR\<close>, in order.
\<close>

definition currPair :: "machine \<Rightarrow> real \<Rightarrow> hwrite list" where
  "currPair M c = [(''SOURCE:CURR:RANGE'', PNum (needRange M c)), (''SOURCE:CURR'', PNum c)]"


section \<open>Properties\<close>

subsection \<open>The range expression\<close>

lemma needRange_ceiling:
  "\<lceil>np_log10 M \<bar>x\<bar>\<rceil> = k \<Longrightarrow> needRange M x = 10 powr real_of_int k"
  by (simp add: needRange_def)

lemma needRange_exact:
  "needRange exact_machine x = 10 powr real_of_int \<lceil>log 10 \<bar>x\<bar>\<rceil>"
  by (simp add: needRange_def exact_machine_def)

lemma needRange_bracket:
  fixes x :: real and k :: int
  assumes "10 powr real_of_int (k - 1) < \<bar>x\<bar>" "\<bar>x\<bar> \<le> 10 powr real_of_int k"
  shows "needRange exact_machine x = 10 powr real_of_int k"
proof -
  have pos: "0 < \<bar>x\<bar>"
    using assms(1) powr_ge_zero [of 10 "real_of_int (k - 1)"] by linarith
  have "log 10 \<bar>x\<bar> \<le> real_of_int k"
    using assms(2) pos by (simp add: log_le_iff)
  moreover have "real_of_int (k - 1) < log 10 \<bar>x\<bar>"
    using assms(1) pos by (simp add: less_log_iff)
  ultimately have "\<lceil>log 10 \<bar>x\<bar>\<rceil> = k"
    by (simp add: ceiling_eq_iff)
  then show ?thesis by (simp add: needRange_exact)
qed

text \<open>
  While the rounding of the logarithm does not change its ceiling, the range is the
  least power of ten that is not below the value.
\<close>

lemma needRange_ge:
  fixes x :: real
  assumes "x \<noteq> 0" "\<lceil>np_log10 M \<bar>x\<bar>\<rceil> = \<lceil>log 10 \<bar>x\<bar>\<rceil>"
  shows "\<bar>x\<bar> \<le> needRange M x"
proof -
  from assms(1) have pos: "0 < \<bar>x\<bar>" by simp
  have "\<bar>x\<bar> = 10 powr log 10 \<bar>x\<bar>" using pos by simp
  also have "\<dots> \<le> 10 powr real_of_int \<lceil>log 10 \<bar>x\<bar>\<rceil>"
    by (rule powr_mono) simp_all
  finally show ?thesis by (simp add: needRange_def assms(2))
qed

lemma needRange_least:
  fixes x :: real and k :: int
  assumes "x \<noteq> 0" "\<lceil>np_log10 M \<bar>x\<bar>\<rceil> = \<lceil>log 10 \<bar>x\<bar>\<rceil>"
      and "\<bar>x\<bar> \<le> 10 powr real_of_int k"
  shows "needRange M x \<le> 10 powr real_of_int k"
proof -
  from assms(1) have pos: "0 < \<bar>x\<bar>" by simp
  have "log 10 \<bar>x\<bar> \<le> real_of_int k"
    using assms(3) pos by (simp add: log_le_iff)
  then have "\<lceil>log 10 \<bar>x\<bar>\<rceil> \<le> k" by (simp add: ceiling_le_iff)
  then show ?thesis unfolding needRange_def assms(2) by (intro powr_mono) simp_all
qed

text \<open>
  The logarithm of the edge value lies above -2 by less than \<open>2 ^ -53\<close>, half the
  distance from -2 to the next double above it: the double nearest to it is -2.
\<close>

lemma log10_edge_rounds:
  "0 < log 10 edge_value + 2 \<and> log 10 edge_value + 2 < 1 / 2 ^ 53"
proof -
  have e: "edge_value * 100 = 1 + 28 / 2 ^ 57" by (simp add: edge_value_def)
  have pos: "0 < edge_value" by (simp add: edge_value_def)
  have sum: "log 10 edge_value + 2 = log 10 (1 + 28 / 2 ^ 57)"
  proof -
    have "log 10 (edge_value * 100) = log 10 edge_value + log 10 100"
      using pos by (simp add: log_mult)
    moreover have "log 10 100 = (2 :: real)"
      using log_pow_cancel [of 10 2] by simp
    ultimately show ?thesis by (simp add: e)
  qed
  have "exp (2 :: real) = exp 1 * exp 1" by (simp add: exp_add [symmetric])
  also have "\<dots> \<le> 3 * 3" by (intro mult_mono exp_le) simp_all
  finally have "exp (2 :: real) < 10" by simp
  then have "exp (2 :: real) < exp (ln 10)" by simp
  then have ln10: "2 < ln (10 :: real)" by (simp only: exp_less_cancel_iff)
  have "ln (1 + 28 / 2 ^ 57 :: real) \<le> 28 / 2 ^ 57"
    using ln_add_one_self_le_self [of "28 / 2 ^ 57 :: real"] by simp
  moreover have "(28 / 2 ^ 57 :: real) < 2 / 2 ^ 53" by simp
  moreover have "(2 :: real) / 2 ^ 53 < ln 10 / 2 ^ 53"
    using ln10 by (rule divide_strict_right_mono) simp
  ultimately have "ln (1 + 28 / 2 ^ 57 :: real) < ln 10 / 2 ^ 53" by linarith
  then have upper: "log 10 (1 + 28 / 2 ^ 57) < 1 / 2 ^ 53"
    using ln10 by (simp add: log_def field_simps)
  have "0 < log 10 (1 + 28 / 2 ^ 57)" by (simp add: zero_less_log_cancel_iff)
  with upper show ?thesis by (simp add: sum)
qed

lemma needRange_edge: "needRange rounding_machine edge_value = 1 / 100"
  by (simp add: needRange_def rounding_machine_def edge_value_def powr_minus_divide)

subsection \<open>One configuration call, and a loop of them\<close>

lemma clip_bounds: "1 / 1000000 \<le> clip x (1 / 1000000) 1 \<and> clip x (1 / 1000000) 1 \<le> 1"
  by (simp add: clip_def)

lemma clip_nonzero: "clip x (1 / 1000000) 1 \<noteq> 0"
  using clip_bounds [of x] by linarith



lemma sent_configCurrent:
  "sent (configCurrent M x s) = sent s @ currPair M (clip x (1 / 1000000) 1)"
  by (simp add: configCurrent_def Let_def clip_nonzero setConfigParam_def currPair_def)

lemma latest_configCurrent:
  "latestCurrentVal (configCurrent M x s) = clip x (1 / 1000000) 1"
  by (simp add: configCurrent_def Let_def)

lemma frame_configCurrent:
  "latestVoltageVal (configCurrent M x s) = latestVoltageVal s"
  "currStep (configCurrent M x s) = currStep s"
  "voltStep (configCurrent M x s) = voltStep s"
  "printed (configCurrent M x s) = printed s"
  by (simp_all add: configCurrent_def Let_def setConfigParam_def)

lemma sent_foldl_configCurrent:
  "sent (foldl (\<lambda>s' curr. configCurrent M curr s') s xs)
     = sent s @ concat (map (\<lambda>x. currPair M (clip x (1 / 1000000) 1)) xs)"
  by (induction xs arbitrary: s) (simp_all add: sent_configCurrent)

lemma latest_foldl_configCurrent:
  "xs \<noteq> [] \<Longrightarrow>
   latestCurrentVal (foldl (\<lambda>s' curr. configCurrent M curr s') s xs) = clip (last xs) (1 / 1000000) 1"
  by (induction xs arbitrary: s rule: rev_induct) (simp_all add: latest_configCurrent)

lemma latestVoltage_foldl_configCurrent:
  "latestVoltageVal (foldl (\<lambda>s' curr. configCurrent M curr s') s xs) = latestVoltageVal s"
  by (induction xs arbitrary: s) (simp_all add: frame_configCurrent)


subsection \<open>The ramp\<close>

lemma tl_linspace:
  assumes "0 < n"
  shows "tl (linspace a b (Suc n)) = map (\<lambda>k. a + real k * ((b - a) / real n)) [1..<Suc n]"
proof -
  let ?f = "\<lambda>k. a + real k * ((b - a) / real n)"
  have fn: "?f n = b" using assms by simp
  have "linspace a b (Suc n) = map ?f [0..<n] @ [b]"
    using assms by (simp add: linspace_def)
  also have "[0..<n] = 0 # [1..<n]" using assms by (simp add: upt_rec)
  finally have "tl (linspace a b (Suc n)) = map ?f [1..<n] @ [?f n]"
    using fn by simp
  also have "\<dots> = map ?f [1..<Suc n]" using assms by simp
  finally show ?thesis .
qed

lemma rampCurrent_steps:
  assumes "st \<noteq> 0" "stepQuotient M a b st = Finite q" "n = nat \<lfloor>q\<rfloor>" "0 < n"
  shows "rampCurrent M np a b st s =
           Inr (foldl (\<lambda>s' curr. configCurrent M curr s') s
                  (map (\<lambda>k. a + real k * ((b - a) / real n)) [1..<Suc n]))"
proof -
  have nn: "0 \<le> \<lfloor>q\<rfloor>" using assms(3,4) by linarith
  have num: "nat (1 + \<lfloor>q\<rfloor>) = Suc n"
    by (simp only: assms(3) Suc_nat_eq_nat_zadd1 [OF nn])
  have "\<not> 1 + \<lfloor>q\<rfloor> < 0" using nn by linarith
  then show ?thesis
    using assms(1,2,4) by (simp add: rampCurrent_def Let_def num tl_linspace del: upt_Suc)
qed



subsection \<open>The getter form of enable\<close>


subsection \<open>Concrete values and the shape of every run\<close>

lemma needRange_lo: "needRange exact_machine (1 / 1000000) = 1 / 1000000"
  using needRange_bracket [of "-6" "1 / 1000000"] by (simp add: powr_minus_divide)

lemma needRange_half: "needRange exact_machine (1 / 2) = 1"
  using needRange_bracket [of 0 "1 / 2"] by (simp add: powr_minus_divide)

lemma last_tl_linspace:
  "tl (linspace a b m) \<noteq> [] \<longrightarrow> last (tl (linspace a b m)) = b"
  by (auto simp add: linspace_def last_tl split: if_splits)

lemma rampCurrent_Inr:
  assumes "rampCurrent M np a b st s = Inr s'"
  shows "\<exists>m. s' = foldl (\<lambda>s' curr. configCurrent M curr s') s (tl (linspace a b m))"
  using assms
  by (auto simp add: rampCurrent_def Let_def split: if_splits sum.splits fval.splits)

lemma foldl_shape:
  assumes "s' = foldl (\<lambda>s' curr. configCurrent M curr s') s xs"
      and "xs \<noteq> [] \<longrightarrow> last xs = x"
  shows "\<exists>cs. sent s' = sent s @ concat (map (currPair M) cs)
           \<and> (\<forall>c\<in>set cs. 1 / 1000000 \<le> c \<and> c \<le> 1)
           \<and> (cs \<noteq> [] \<longrightarrow> last cs = clip x (1 / 1000000) 1
                              \<and> latestCurrentVal s' = clip x (1 / 1000000) 1)
           \<and> (cs = [] \<longrightarrow> s' = s)
           \<and> latestVoltageVal s' = latestVoltageVal s"
proof (intro exI [of _ "map (\<lambda>x. clip x (1 / 1000000) 1) xs"] conjI)
  show "sent s' = sent s @ concat (map (currPair M) (map (\<lambda>x. clip x (1 / 1000000) 1) xs))"
    by (simp add: assms(1) sent_foldl_configCurrent comp_def)
  show "\<forall>c\<in>set (map (\<lambda>x. clip x (1 / 1000000) 1) xs). 1 / 1000000 \<le> c \<and> c \<le> 1"
    using clip_bounds by auto
  show "map (\<lambda>x. clip x (1 / 1000000) 1) xs \<noteq> [] \<longrightarrow>
          last (map (\<lambda>x. clip x (1 / 1000000) 1) xs) = clip x (1 / 1000000) 1
          \<and> latestCurrentVal s' = clip x (1 / 1000000) 1"
    using assms by (simp add: last_map latest_foldl_configCurrent)
  show "map (\<lambda>x. clip x (1 / 1000000) 1) xs = [] \<longrightarrow> s' = s"
    using assms(1) by simp
  show "latestVoltageVal s' = latestVoltageVal s"
    by (simp add: assms(1) latestVoltage_foldl_configCurrent)
qed

lemma setCurrent_shape:
  assumes "setCurrent M I x s = Inr s'"
  shows "\<exists>cs. sent s' = sent s @ concat (map (currPair M) cs)
           \<and> (\<forall>c\<in>set cs. 1 / 1000000 \<le> c \<and> c \<le> 1)
           \<and> (cs \<noteq> [] \<longrightarrow> last cs = clip x (1 / 1000000) 1
                              \<and> latestCurrentVal s' = clip x (1 / 1000000) 1)
           \<and> (cs = [] \<longrightarrow> s' = s)
           \<and> latestVoltageVal s' = latestVoltageVal s"
proof (cases "\<not> enable_get I s \<or> currStep s = None")
  case True
  then have "s' = foldl (\<lambda>s' curr. configCurrent M curr s') s [x]"
    using assms by (simp add: setCurrent_def)
  then show ?thesis by (rule foldl_shape) simp
next
  case False
  then have "rampCurrent M (latestCurrentVal s \<noteq> 0) (latestCurrentVal s) x (the (currStep s)) s
               = Inr s'"
    using assms by (auto simp add: setCurrent_def Let_def)
  from rampCurrent_Inr [OF this] obtain m where
    "s' = foldl (\<lambda>s' curr. configCurrent M curr s') s (tl (linspace (latestCurrentVal s) x m))"
    by blast
  then show ?thesis by (rule foldl_shape [OF _ last_tl_linspace])
qed

lemma setVoltage_shape:
  assumes "setVoltage M I x s = Inr s'"
  shows "\<exists>cs. sent s' = sent s @ concat (map (currPair M) cs)
           \<and> (\<forall>c\<in>set cs. 1 / 1000000 \<le> c \<and> c \<le> 1)
           \<and> (cs \<noteq> [] \<longrightarrow> last cs = clip x (1 / 1000000) 1
                              \<and> latestCurrentVal s' = clip x (1 / 1000000) 1)
           \<and> (cs = [] \<longrightarrow> s' = s)
           \<and> latestVoltageVal s' = latestVoltageVal s"
proof (cases "\<not> enable_get I s \<or> voltStep s = None")
  case True
  then have "s' = foldl (\<lambda>s' curr. configCurrent M curr s') s [x]"
    using assms by (simp add: setVoltage_def)
  then show ?thesis by (rule foldl_shape) simp
next
  case False
  then have "rampCurrent M False (latestVoltageVal s) x (the (voltStep s)) s = Inr s'"
    using assms by (auto simp add: setVoltage_def Let_def)
  from rampCurrent_Inr [OF this] obtain m where
    "s' = foldl (\<lambda>s' curr. configCurrent M curr s') s (tl (linspace (latestVoltageVal s) x m))"
    by blast
  then show ?thesis by (rule foldl_shape [OF _ last_tl_linspace])
qed

lemma rampCurrent_total:
  assumes "st \<noteq> 0" "stepQuotient M a b st = Finite q" "0 \<le> q"
  shows "\<exists>s'. rampCurrent M np a b st s = Inr s'"
proof -
  have "0 \<le> \<lfloor>q\<rfloor>" using assms(3) by simp
  then have "\<not> 1 + \<lfloor>q\<rfloor> < 0" by linarith
  then show ?thesis using assms(1,2) by (simp add: rampCurrent_def Let_def)
qed

lemma setCurrent_total:
  assumes "\<forall>st. currStep s = Some st \<longrightarrow>
             st \<noteq> 0 \<and> (\<exists>q. stepQuotient M (latestCurrentVal s) x st = Finite q \<and> 0 \<le> q)"
  shows "\<exists>s'. setCurrent M I x s = Inr s'"
proof (cases "\<not> enable_get I s \<or> currStep s = None")
  case True
  then show ?thesis by (simp add: setCurrent_def)
next
  case False
  then obtain st where st: "currStep s = Some st" by auto
  with assms obtain q where "st \<noteq> 0" "stepQuotient M (latestCurrentVal s) x st = Finite q" "0 \<le> q"
    by blast
  from rampCurrent_total [OF this] False st show ?thesis
    by (simp add: setCurrent_def Let_def)
qed

lemma exact_quotient:
  "stepQuotient exact_machine a b st = Finite (\<bar>a - b\<bar> / st)"
  by (simp add: exact_machine_def)

lemma sent_default_driver:
  "sent default_driver = [(''VOLT:PROT'', PNum 4), (''CURR:PROT'', PNum (200 / 1000))]"
  by (simp add: default_driver_def init_def Let_def setProtectionVoltage_def
      setProtectionCurrent_def setConfigParam_def)

lemma enable_get_default: "\<not> enable_get (echo_instrument r) default_driver"
  by (simp add: enable_get_def getConfigParam_def echo_instrument_def sent_default_driver Let_def)

lemma sent_configVoltage:
  "t \<noteq> 0 \<Longrightarrow> sent (configVoltage M t s)
     = sent s @ [(''SOURCE:VOLT:RANGE'', PNum (needRange M t)), (''SOURCE:VOLT'', PNum t)]"
  by (simp add: configVoltage_def Let_def setConfigParam_def)

lemma clip_zero: "clip 0 (1 / 1000000) 1 = 1 / 1000000"
  by (simp add: clip_def)

lemma needRange_five: "needRange exact_machine 5 = 10"
  using needRange_bracket [of 1 5] by simp

lemma setCurrent_default:
  "setCurrent M (echo_instrument r) x default_driver = Inr (configCurrent M x default_driver)"
  by (simp add: setCurrent_def enable_get_default)

lemma setVoltage_default:
  "setVoltage M (echo_instrument r) x default_driver = Inr (configCurrent M x default_driver)"
  by (simp add: setVoltage_def enable_get_default)

lemma func_default:
  "getConfigParam (echo_instrument r) ''SOURCE:FUNC'' False default_driver = PStr ''0''"
  by (simp add: getConfigParam_def echo_instrument_def sent_default_driver)
    (simp add: default_driver_def init_def Let_def setProtectionVoltage_def
      setProtectionCurrent_def setConfigParam_def)

lemma enable_False_default:
  "\<exists>b. enable M (echo_instrument r) (Some False) default_driver
         = Inr (b, setConfigParam ''OUTP:STATE'' (PNum 0) (configCurrent M 0 default_driver))"
  by (simp add: enable_def func_default setVoltage_default Let_def)

lemma running_driver_fields:
  "latestCurrentVal (running_driver M st c) = clip c (1 / 1000000) 1"
  "currStep (running_driver M st c) = Some st"
  "config (running_driver M st c) ''SOURCE:FUNC'' = Some (PStr ''CURR'')"
  by (simp_all add: running_driver_def configCurrent_def setConfigParam_def setSourceMode_def
      init_def setProtectionVoltage_def setProtectionCurrent_def Let_def)

lemma running_driver_on: "enable_get (echo_instrument r) (running_driver M st c)"
  by (simp add: enable_get_def getConfigParam_def echo_instrument_def running_driver_def
      sent_configCurrent currPair_def setConfigParam_def Let_def)

lemma running_driver_mode:
  "getConfigParam I ''SOURCE:FUNC'' False (running_driver M st c) = PStr ''CURR''"
  by (simp add: getConfigParam_def running_driver_fields)

lemma needRange_milli: "needRange exact_machine (1 / 1000) = 1 / 1000"
  using needRange_bracket [of "-3" "1 / 1000"] by (simp add: powr_minus_divide)

lemma needRange_two_milli: "needRange exact_machine (1 / 500) = 1 / 100"
  using needRange_bracket [of "-2" "1 / 500"] by (simp add: powr_minus_divide)

lemma upt_1_4: "[Suc 0..<4] = [1, 2, 3]"
  by (simp add: upt_rec)


lemma setCurrent_running:
  assumes "0 < st" "n = nat \<lfloor>\<bar>clip c (1 / 1000000) 1 - b\<bar> / st\<rfloor>" "0 < n"
  shows "setCurrent exact_machine (echo_instrument r) b (running_driver M st c) =
           Inr (foldl (\<lambda>s' curr. configCurrent exact_machine curr s') (running_driver M st c)
                  (map (\<lambda>k. clip c (1 / 1000000) 1
                              + real k * ((b - clip c (1 / 1000000) 1) / real n)) [1..<Suc n]))"
proof -
  have "st \<noteq> 0" using assms(1) by simp
  from rampCurrent_steps [OF this exact_quotient assms(2,3)]
  show ?thesis
    by (simp add: setCurrent_def Let_def running_driver_on running_driver_fields del: upt_Suc)
qed




text \<open>A change over less than one step: nothing is written and nothing is persisted.\<close>

lemma setCurrent_less_than_a_step:
  assumes "enable_get I s" "currStep s = Some st" "st \<noteq> 0"
      and "stepQuotient M (latestCurrentVal s) b st = Finite q" "0 \<le> q" "q < 1"
  shows "setCurrent M I b s = Inr s"
proof -
  have "\<lfloor>q\<rfloor> = 0" using assms(5,6) by (simp add: floor_eq_iff)
  then show ?thesis
    using assms(1-4) by (simp add: setCurrent_def rampCurrent_def linspace_def Let_def)
qed

subsection \<open>Replies and measurements\<close>

lemma str_split_nonempty: "str_split sep cs \<noteq> []"
  by (induction cs) (auto split: list.splits)

lemma str_split_field:
  "sep \<notin> set f \<Longrightarrow> str_split sep (f @ sep # rest) = f # str_split sep rest"
  by (induction f) (auto split: list.splits)

lemma str_split_single: "sep \<notin> set f \<Longrightarrow> str_split sep f = [f]"
  by (induction f) (auto split: list.splits)

lemma str_split_first:
  assumes "sep \<notin> set f" "rest = [] \<or> hd rest = sep"
  shows "\<exists>fs. str_split sep (f @ rest) = f # fs"
proof (cases rest)
  case Nil
  then show ?thesis using assms(1) by (simp add: str_split_single)
next
  case (Cons c cs)
  with assms(2) have "rest = sep # cs" by simp
  then show ?thesis using assms(1) by (simp add: str_split_field)
qed

lemmas py_float_eval =
  py_float_def strip_def is_space_def lower_def floatnumber_def split_first_def
  number_def exponent_def digitpart_def is_digit_def digit_val_def Let_def

lemma protection_default:
  "protectionVoltage I default_driver = PNum 4"
  "protectionCurrent I default_driver = PNum (200 / 1000)"
  by (simp_all add: protectionVoltage_def protectionCurrent_def getConfigParam_def
      default_driver_def init_def setProtectionVoltage_def setProtectionCurrent_def
      setConfigParam_def Let_def)

lemma query_echo: "query (echo_instrument r) ws q = r"
  by (simp add: echo_instrument_def)

lemma py_float_examples:
  "py_float ''1.5'' = Inr (3 / 2)"
  "py_float ''0.02'' = Inr (2 / 100)"
  "py_float ''5'' = Inr 5"
  by (simp_all add: py_float_eval)

lemma measure_example:
  "measVoltage (echo_instrument ''1.5,0.02'') default_driver = Inr (3 / 2, default_driver)"
  "measCurrent (echo_instrument ''1.5,0.02'') default_driver = Inr (2 / 100, default_driver)"
  by (simp_all add: measVoltage_def measCurrent_def query_echo index_def py_float_examples
      ge_limit_def protection_default Let_def)

lemma measVoltage_compliance:
  assumes "measVoltage I s = Inr (v, s')" "protectionVoltage I s = PNum pv"
  shows "s' = (if pv \<le> v
              then s\<lparr>printed := printed s @
                     [[PStr ''Warning: Keithley compliance voltage of'', PNum pv, PStr ''reached.''],
                      [PStr ''Warning: You are sourcing'',
                       PNum (v * latestCurrentVal s * (1 / 1000)), PStr ''mW into the load.'']]\<rparr>
              else s)"
  using assms
  by (auto simp add: measVoltage_def ge_limit_def Let_def split: sum.splits)

lemma measCurrent_compliance:
  assumes "measCurrent I s = Inr (i, s')" "protectionCurrent I s = PNum pc"
  shows "s' = (if pc \<le> i
              then s\<lparr>printed := printed s @
                     [[PStr ''Warning: Keithley compliance current of'', PNum pc, PStr ''reached.''],
                      [PStr ''Warning: You are sourcing'',
                       PNum (i * latestVoltageVal s * (1 / 1000)), PStr ''mW into the load.'']]\<rparr>
              else s)"
  using assms
  by (auto simp add: measCurrent_def ge_limit_def Let_def split: sum.splits)

lemma running_driver_protection:
  "protectionVoltage I (running_driver M st c) = PNum 4"
  by (simp add: protectionVoltage_def getConfigParam_def running_driver_def configCurrent_def
      setConfigParam_def setSourceMode_def init_def setProtectionVoltage_def
      setProtectionCurrent_def Let_def)

lemma running_driver_printed: "printed (running_driver M st c) = []"
  by (simp add: running_driver_def configCurrent_def
      setConfigParam_def setSourceMode_def init_def setProtectionVoltage_def
      setProtectionCurrent_def Let_def)

section \<open>The claims\<close>

text \<open>
  Claim C2 (code defect). \<^verbatim>\<open>setVoltage\<close> should write the parameter SOURCE:VOLT and
  update the persisted last-commanded voltage. The source calls \<^verbatim>\<open>_configCurrent\<close> on
  both paths: on a fresh driver with the output off, \<^verbatim>\<open>setVoltage(0.5)\<close> writes
  SOURCE:CURR:RANGE and SOURCE:CURR, sets the persisted current to 0.5 and leaves the
  persisted voltage at 0.
\<close>

theorem setVoltage_writes_current:
  "setVoltage exact_machine (echo_instrument []) (1 / 2) default_driver = Inr (configCurrent exact_machine (1 / 2) default_driver)
   \<and> sent (configCurrent exact_machine (1 / 2) default_driver)
       = sent default_driver @ [(''SOURCE:CURR:RANGE'', PNum 1), (''SOURCE:CURR'', PNum (1 / 2))]
   \<and> latestCurrentVal (configCurrent exact_machine (1 / 2) default_driver) = 1 / 2
   \<and> latestVoltageVal (configCurrent exact_machine (1 / 2) default_driver) = 0"
  by (simp add: setVoltage_def enable_get_default sent_configCurrent latest_configCurrent
      frame_configCurrent currPair_def clip_def needRange_half)
    (simp add: default_driver_def init_def Let_def setProtectionVoltage_def
      setProtectionCurrent_def setConfigParam_def)

text \<open>
  The run of C2 at its input: what \<^verbatim>\<open>setVoltage(0.5)\<close> leaves is not what
  \<^verbatim>\<open>_configVoltage(0.5)\<close> would have left.
\<close>

theorem setVoltage_writes_current_witness:
  "setVoltage exact_machine (echo_instrument []) (1 / 2) default_driver \<noteq> Inr (configVoltage exact_machine (1 / 2) default_driver)"
proof
  assume "setVoltage exact_machine (echo_instrument []) (1 / 2) default_driver = Inr (configVoltage exact_machine (1 / 2) default_driver)"
  with setVoltage_writes_current
  have "latestVoltageVal (configVoltage exact_machine (1 / 2) default_driver) = 0" by simp
  then show False by (simp add: configVoltage_def Let_def)
qed

text \<open>
  Claim C3, as the code has it. The claim says that the magnitude is clamped and the sign
  kept. \<^verbatim>\<open>_configCurrent\<close> clamps the signed value: every request below 1e-6, zero and
  negative ones included, commands 1e-6; every request above 1 commands 1; any other
  request is commanded unchanged. The value written to SOURCE:CURR is the persisted one.
\<close>

theorem configCurrent_clamps_signed_value:
  "latestCurrentVal (configCurrent M x s)
     = (if x < 1 / 1000000 then 1 / 1000000 else if 1 < x then 1 else x)
   \<and> last (sent (configCurrent M x s)) = (''SOURCE:CURR'', PNum (latestCurrentVal (configCurrent M x s)))"
  by (simp add: latest_configCurrent sent_configCurrent currPair_def clip_def)

text \<open>
  Claim C3 as stated fails at the request -2: its magnitude is above 1, so the claim
  expects -1; the code commands 1e-6, which has neither magnitude 1 nor the sign of the
  request.
\<close>

theorem clamp_magnitude_counterexample:
  "latestCurrentVal (configCurrent exact_machine (- 2) default_driver) = 1 / 1000000
   \<and> \<bar>latestCurrentVal (configCurrent exact_machine (- 2) default_driver)\<bar> \<noteq> 1
   \<and> sgn (latestCurrentVal (configCurrent exact_machine (- 2) default_driver)) \<noteq> sgn (- 2 :: real)"
  by (simp add: latest_configCurrent clip_def)

text \<open>
  Claim C8, as the code has it. \<^verbatim>\<open>setPort\<close> writes FRON to ROUT:TERM for Front and
  REAR for Rear. For any other value it writes nothing and returns normally, the driver
  unchanged: the method has no third branch, and nothing in the driver raises on an
  argument.
\<close>

theorem setPort_maps_front_and_rear:
  "setPort ''Front'' s = Inr (setConfigParam ''ROUT:TERM'' (PStr ''FRON'') s)
   \<and> sent (setConfigParam ''ROUT:TERM'' (PStr ''FRON'') s) = sent s @ [(''ROUT:TERM'', PStr ''FRON'')]
   \<and> setPort ''Rear'' s = Inr (setConfigParam ''ROUT:TERM'' (PStr ''REAR'') s)
   \<and> sent (setConfigParam ''ROUT:TERM'' (PStr ''REAR'') s) = sent s @ [(''ROUT:TERM'', PStr ''REAR'')]
   \<and> (port \<noteq> ''Front'' \<and> port \<noteq> ''Rear'' \<longrightarrow> setPort port s = Inr s)"
  by (simp add: setPort_def setConfigParam_def)

text \<open>C8 at the lower-case spelling of a valid port: nothing happens.\<close>

theorem setPort_maps_front_and_rear_witness:
  "''front'' \<noteq> ''Front'' \<and> ''front'' \<noteq> ''Rear''
   \<and> setPort ''front'' default_driver = Inr default_driver"
  using setPort_maps_front_and_rear [of default_driver "''front''"] by simp

text \<open>
  Claim C8 as stated fails at the value Top: the call is no failure, it returns the
  driver it was given.
\<close>

theorem setPort_invalid_counterexample:
  "setPort ''Top'' default_driver = Inr default_driver
   \<and> \<not> isl (setPort ''Top'' default_driver)"
  by (simp add: setPort_def)

text \<open>
  Claim C9. \<^verbatim>\<open>enable()\<close> with no argument returns normally, leaves the driver as it
  was (no write of OUTP:STATE, of a source parameter or of anything else), and its result
  is true exactly when the instrument's own answer for OUTP:STATE, not the cached value, is
  one of ON, 1 and "1".
\<close>

theorem enable_getter_only_reads:
  "enable M I None s =
     Inr (hwQuery I (sent s) ''OUTP:STATE'' \<in> {PStr ''ON'', PNum 1, PStr ''1''}, s)"
  by (simp add: enable_def getConfigParam_def Let_def)

text \<open>
  Claim C4 (code defect). The range written before a nonzero target \<open>t\<close> is
  \<open>10 ^ ceil(L)\<close>, where \<open>L\<close> is the float that \<^verbatim>\<open>np.log10\<close> returns for \<open>|t|\<close>. It is the
  least power of ten that is not below \<open>|t|\<close> as long as rounding does not change the
  ceiling of the logarithm (\<open>needRange_ge\<close>, \<open>needRange_least\<close>), and not otherwise. For
  the double next above 0.01 the logarithm rounds to -2.0: the range written is 0.01,
  which is below the value, for the voltage and for the current alike; the least power
  of ten that is not below the value is 0.1.
\<close>

theorem needRange_below_value:
  "sent (configVoltage rounding_machine edge_value default_driver)
     = sent default_driver
         @ [(''SOURCE:VOLT:RANGE'', PNum (1 / 100)), (''SOURCE:VOLT'', PNum edge_value)]
   \<and> sent (configCurrent rounding_machine edge_value default_driver)
     = sent default_driver
         @ [(''SOURCE:CURR:RANGE'', PNum (1 / 100)), (''SOURCE:CURR'', PNum edge_value)]
   \<and> 1 / 100 < edge_value \<and> edge_value \<le> 1 / 10
   \<and> np_log10 rounding_machine \<bar>edge_value\<bar> = - 2
   \<and> 0 < log 10 edge_value + 2 \<and> log 10 edge_value + 2 < 1 / 2 ^ 53"
proof -
  have v: "edge_value \<noteq> 0" "1 / 100 < edge_value" "edge_value \<le> 1 / 10"
    by (simp_all add: edge_value_def)
  have c: "clip edge_value (1 / 1000000) 1 = edge_value"
    by (simp add: clip_def edge_value_def)
  have l: "np_log10 rounding_machine \<bar>edge_value\<bar> = - 2"
    by (simp add: rounding_machine_def edge_value_def)
  show ?thesis
    using v l log10_edge_rounds
    by (simp add: sent_configVoltage sent_configCurrent currPair_def c needRange_edge)
qed

text \<open>
  Claim C10. Every call of \<^verbatim>\<open>_configCurrent\<close> writes SOURCE:CURR:RANGE and then
  SOURCE:CURR, the value written and persisted is the request clamped to [1e-6, 1] and so
  lies in that interval, whatever was requested. Hence the writes of a \<^verbatim>\<open>setCurrent\<close>
  that returns are such pairs with values in the interval, the persisted current being
  the last of them (the driver is unchanged when there is none); and after
  \<^verbatim>\<open>setCurrentMode\<close> the persisted current is 1e-6, not 0, and the last two writes are
  that pair.
\<close>

theorem configCurrent_commands_within_limits:
  "(let c = clip x (1 / 1000000) 1; s' = configCurrent M x s
    in sent s' = sent s @ [(''SOURCE:CURR:RANGE'', PNum (needRange M c)), (''SOURCE:CURR'', PNum c)]
       \<and> latestCurrentVal s' = c \<and> 1 / 1000000 \<le> c \<and> c \<le> 1)
   \<and> (\<forall>s'. setCurrent M I x s = Inr s' \<longrightarrow>
         (\<exists>cs. sent s' = sent s @ concat (map (currPair M) cs)
               \<and> (\<forall>c\<in>set cs. 1 / 1000000 \<le> c \<and> c \<le> 1)
               \<and> (cs \<noteq> [] \<longrightarrow> latestCurrentVal s' = last cs)
               \<and> (cs = [] \<longrightarrow> s' = s)))
   \<and> (\<forall>s'. setCurrentMode M I p s = Inr s' \<longrightarrow>
         latestCurrentVal s' = 1 / 1000000
         \<and> (\<exists>ws. sent s' = ws @ currPair M (1 / 1000000)))"
proof (intro conjI allI impI)
  show "let c = clip x (1 / 1000000) 1; s' = configCurrent M x s
        in sent s' = sent s @ [(''SOURCE:CURR:RANGE'', PNum (needRange M c)), (''SOURCE:CURR'', PNum c)]
           \<and> latestCurrentVal s' = c \<and> 1 / 1000000 \<le> c \<and> c \<le> 1"
    using clip_bounds [of x]
    by (simp add: Let_def sent_configCurrent latest_configCurrent currPair_def)
next
  fix s' assume "setCurrent M I x s = Inr s'"
  from setCurrent_shape [OF this]
  show "\<exists>cs. sent s' = sent s @ concat (map (currPair M) cs)
               \<and> (\<forall>c\<in>set cs. 1 / 1000000 \<le> c \<and> c \<le> 1)
               \<and> (cs \<noteq> [] \<longrightarrow> latestCurrentVal s' = last cs)
               \<and> (cs = [] \<longrightarrow> s' = s)"
    by auto
next
  fix s' assume m: "setCurrentMode M I p s = Inr s'"
  then obtain s1 where s': "s' = configCurrent M 0 s1"
    by (auto simp add: setCurrentMode_def split: sum.splits)
  show "latestCurrentVal s' = 1 / 1000000"
    by (simp add: s' latest_configCurrent clip_zero)
  show "\<exists>ws. sent s' = ws @ currPair M (1 / 1000000)"
    by (simp add: s' sent_configCurrent clip_zero)
qed

text \<open>
  C10 on a fresh driver: a request of -3 A writes the range 1e-6 and the value 1e-6 and
  persists 1e-6, directly and through \<^verbatim>\<open>setCurrent\<close>; \<^verbatim>\<open>setCurrentMode\<close> returns and
  persists 1e-6.
\<close>

theorem configCurrent_commands_within_limits_witness:
  "sent (configCurrent exact_machine (- 3) default_driver)
     = sent default_driver
         @ [(''SOURCE:CURR:RANGE'', PNum (1 / 1000000)), (''SOURCE:CURR'', PNum (1 / 1000000))]
   \<and> latestCurrentVal (configCurrent exact_machine (- 3) default_driver) = 1 / 1000000
   \<and> setCurrent exact_machine (echo_instrument []) (- 3) default_driver = Inr (configCurrent exact_machine (- 3) default_driver)
   \<and> (\<exists>s'. setCurrentMode exact_machine (echo_instrument []) (PNum 1) default_driver = Inr s'
           \<and> latestCurrentVal s' = 1 / 1000000)"
proof -
  have c: "clip (- 3) (1 / 1000000) 1 = 1 / 1000000" by (simp add: clip_def)
  obtain s' where m: "setCurrentMode exact_machine (echo_instrument []) (PNum 1) default_driver = Inr s'"
    using enable_False_default [of exact_machine "[]"] by (auto simp add: setCurrentMode_def)
  from configCurrent_commands_within_limits
         [where x = "- 3" and s = default_driver and M = exact_machine
            and I = "echo_instrument []" and p = "PNum 1"] m
  show ?thesis
    by (simp add: Let_def c needRange_lo setCurrent_default)
qed

text \<open>
  Claim C5. In current-source mode, \<^verbatim>\<open>enable(False)\<close> that returns has written, after
  what was written before: the writes of \<^verbatim>\<open>setCurrent(0)\<close>, which are pairs of
  SOURCE:CURR:RANGE and SOURCE:CURR, and then, last, OUTP:STATE 0. So every write of the
  ramp precedes the write that turns the output off. The ramp ends at 1e-6, the clamp
  of 0. If the call raises, it is \<^verbatim>\<open>setCurrent(0)\<close> that raised, before any write. With
  no step size, or with one that is not zero and for which the machine's quotient is a
  float that is not negative (as it is for every positive step, short of an overflow),
  the call returns.
\<close>

theorem enable_False_zeroes_before_disabling:
  assumes "getConfigParam I ''SOURCE:FUNC'' False s = PStr ''CURR''"
  shows "(\<forall>b s'. enable M I (Some False) s = Inr (b, s') \<longrightarrow>
            (\<exists>s1 cs. setCurrent M I 0 s = Inr s1
               \<and> sent s1 = sent s @ concat (map (currPair M) cs)
               \<and> (cs \<noteq> [] \<longrightarrow> last cs = 1 / 1000000)
               \<and> sent s' = sent s1 @ [(''OUTP:STATE'', PNum 0)]))
       \<and> (\<forall>e. enable M I (Some False) s = Inl e \<longrightarrow> setCurrent M I 0 s = Inl e)
       \<and> ((\<forall>st. currStep s = Some st \<longrightarrow>
               st \<noteq> 0 \<and> (\<exists>q. stepQuotient M (latestCurrentVal s) 0 st = Finite q \<and> 0 \<le> q))
            \<longrightarrow> (\<exists>b s'. enable M I (Some False) s = Inr (b, s')))"
proof (intro conjI allI impI)
  fix b s' assume e: "enable M I (Some False) s = Inr (b, s')"
  then obtain s1 where s1: "setCurrent M I 0 s = Inr s1"
    and s': "s' = setConfigParam ''OUTP:STATE'' (PNum 0) s1"
    using assms by (auto simp add: enable_def Let_def split: sum.splits)
  from setCurrent_shape [OF s1] obtain cs where
    "sent s1 = sent s @ concat (map (currPair M) cs)" "cs \<noteq> [] \<longrightarrow> last cs = 1 / 1000000"
    by (auto simp add: clip_zero)
  then show "\<exists>s1 cs. setCurrent M I 0 s = Inr s1
               \<and> sent s1 = sent s @ concat (map (currPair M) cs)
               \<and> (cs \<noteq> [] \<longrightarrow> last cs = 1 / 1000000)
               \<and> sent s' = sent s1 @ [(''OUTP:STATE'', PNum 0)]"
    using s1 s' by (auto simp add: setConfigParam_def)
next
  fix e assume "enable M I (Some False) s = Inl e"
  then show "setCurrent M I 0 s = Inl e"
    using assms by (auto simp add: enable_def Let_def split: sum.splits)
next
  assume "\<forall>st. currStep s = Some st \<longrightarrow>
            st \<noteq> 0 \<and> (\<exists>q. stepQuotient M (latestCurrentVal s) 0 st = Finite q \<and> 0 \<le> q)"
  from setCurrent_total [OF this] obtain s1 where "setCurrent M I 0 s = Inr s1" by blast
  then show "\<exists>b s'. enable M I (Some False) s = Inr (b, s')"
    using assms by (simp add: enable_def Let_def)
qed

text \<open>
  C5 on a driver that sources 3 mA with a step of 1 mA: the ramp writes 2 mA, 1 mA and
  1e-6 A, each after its range, and OUTP:STATE 0 comes last.
\<close>

theorem enable_False_zeroes_before_disabling_witness:
  "getConfigParam (echo_instrument []) ''SOURCE:FUNC'' False (running_driver exact_machine (1 / 1000) (3 / 1000))
     = PStr ''CURR''
   \<and> (\<exists>b s'. enable exact_machine (echo_instrument []) (Some False) (running_driver exact_machine (1 / 1000) (3 / 1000))
               = Inr (b, s')
           \<and> sent s' = sent (running_driver exact_machine (1 / 1000) (3 / 1000))
                @ [(''SOURCE:CURR:RANGE'', PNum (1 / 100)), (''SOURCE:CURR'', PNum (2 / 1000)),
                   (''SOURCE:CURR:RANGE'', PNum (1 / 1000)), (''SOURCE:CURR'', PNum (1 / 1000)),
                   (''SOURCE:CURR:RANGE'', PNum (1 / 1000000)), (''SOURCE:CURR'', PNum (1 / 1000000)),
                   (''OUTP:STATE'', PNum 0)])"
proof -
  let ?s = "running_driver exact_machine (1 / 1000) (3 / 1000)" and ?I = "echo_instrument []"
  have mode: "getConfigParam ?I ''SOURCE:FUNC'' False ?s = PStr ''CURR''"
    by (rule running_driver_mode)
  have c: "clip (3 / 1000) (1 / 1000000) 1 = 3 / 1000" by (simp add: clip_def)
  have run: "setCurrent exact_machine ?I 0 ?s
          = Inr (foldl (\<lambda>s' curr. configCurrent exact_machine curr s') ?s [2 / 1000, 1 / 1000, 0])"
    using setCurrent_running
            [where st = "1 / 1000" and n = 3 and c = "3 / 1000" and b = 0 and r = "[]"
               and M = exact_machine]
    by (simp add: c upt_1_4)
  have step: "\<forall>st. currStep ?s = Some st \<longrightarrow>
                st \<noteq> 0 \<and> (\<exists>q. stepQuotient exact_machine (latestCurrentVal ?s) 0 st = Finite q
                                \<and> 0 \<le> q)"
    by (simp add: running_driver_fields exact_quotient)
  from enable_False_zeroes_before_disabling [OF mode] step
  obtain b s' s1 where e: "enable exact_machine ?I (Some False) ?s = Inr (b, s')"
    and s1: "setCurrent exact_machine ?I 0 ?s = Inr s1" and s': "sent s' = sent s1 @ [(''OUTP:STATE'', PNum 0)]"
    by blast
  from s1 run have "sent s1 = sent ?s @ currPair exact_machine (2 / 1000) @ currPair exact_machine (1 / 1000) @ currPair exact_machine (1 / 1000000)"
    by (auto simp add: sent_configCurrent clip_def)
  with e s' mode show ?thesis
    by (auto simp add: currPair_def needRange_lo needRange_milli needRange_two_milli)
qed




text \<open>
  Claim C6. When the reply to the voltage query starts with a field without a comma
  that \<^verbatim>\<open>float\<close> reads as \<open>v\<close>, \<^verbatim>\<open>measVoltage\<close> returns \<open>v\<close>. When the reply to the
  current query has a second comma-separated field that \<^verbatim>\<open>float\<close> reads as \<open>i\<close>,
  \<^verbatim>\<open>measCurrent\<close> returns \<open>i\<close>, whatever its first field is. Fields after the one that
  is read are ignored. The cached protection limit is a number, as the constructor
  leaves it, so that the comparison with it does not raise.
\<close>

theorem measurements_return_first_and_second_field:
  "(query I (sent s) ''MEASURE:VOLT?'' = f1 @ rest1
      \<and> CHR '','' \<notin> set f1 \<and> (rest1 = [] \<or> hd rest1 = CHR '','')
      \<and> py_float f1 = Inr v \<and> protectionVoltage I s = PNum pv
    \<longrightarrow> (\<exists>s'. measVoltage I s = Inr (v, s')))
   \<and> (query I (sent s) ''MEASURE:CURR?'' = f0 @ CHR '','' # f2 @ rest2
      \<and> CHR '','' \<notin> set f0 \<and> CHR '','' \<notin> set f2 \<and> (rest2 = [] \<or> hd rest2 = CHR '','')
      \<and> py_float f2 = Inr i \<and> protectionCurrent I s = PNum pc
    \<longrightarrow> (\<exists>s'. measCurrent I s = Inr (i, s')))"
proof (intro conjI impI)
  assume h: "query I (sent s) ''MEASURE:VOLT?'' = f1 @ rest1
      \<and> CHR '','' \<notin> set f1 \<and> (rest1 = [] \<or> hd rest1 = CHR '','')
      \<and> py_float f1 = Inr v \<and> protectionVoltage I s = PNum pv"
  then have "CHR '','' \<notin> set f1" "rest1 = [] \<or> hd rest1 = CHR '',''" by blast+
  from str_split_first [OF this] obtain fs where
    "str_split CHR '','' (f1 @ rest1) = f1 # fs" by blast
  then show "\<exists>s'. measVoltage I s = Inr (v, s')"
    using h by (simp add: measVoltage_def index_def ge_limit_def Let_def)
next
  assume h: "query I (sent s) ''MEASURE:CURR?'' = f0 @ CHR '','' # f2 @ rest2
      \<and> CHR '','' \<notin> set f0 \<and> CHR '','' \<notin> set f2 \<and> (rest2 = [] \<or> hd rest2 = CHR '','')
      \<and> py_float f2 = Inr i \<and> protectionCurrent I s = PNum pc"
  then have "CHR '','' \<notin> set f2" "rest2 = [] \<or> hd rest2 = CHR '',''" by blast+
  from str_split_first [OF this] obtain fs where
    "str_split CHR '','' (f2 @ rest2) = f2 # fs" by blast
  then have "str_split CHR '','' (f0 @ CHR '','' # f2 @ rest2) = f0 # f2 # fs"
    using h by (simp add: str_split_field)
  then show "\<exists>s'. measCurrent I s = Inr (i, s')"
    using h by (simp add: measCurrent_def index_def ge_limit_def Let_def)
qed

text \<open>C6 at the reply of the claim, "1.5,0.02": 1.5 and 0.02 are returned.\<close>

theorem measurements_return_first_and_second_field_witness:
  "(\<exists>s'. measVoltage (echo_instrument ''1.5,0.02'') default_driver = Inr (3 / 2, s'))
   \<and> (\<exists>s'. measCurrent (echo_instrument ''1.5,0.02'') default_driver = Inr (2 / 100, s'))"
  using measurements_return_first_and_second_field
    [where I = "echo_instrument ''1.5,0.02''" and s = default_driver
       and ?f1.0 = "''1.5''" and ?rest1.0 = "'',0.02''" and v = "3 / 2" and pv = 4
       and ?f0.0 = "''1.5''" and ?f2.0 = "''0.02''" and ?rest2.0 = "[]" and i = "2 / 100"
       and pc = "200 / 1000"]
  by (simp add: query_echo protection_default py_float_examples)

text \<open>
  Claim C7 (code defect). The warning is printed exactly when the measured value reaches
  the limit, and the measured value is returned either way (\<open>measVoltage_compliance\<close>,
  \<open>measCurrent_compliance\<close>). But the power in the warning is not the measured value times
  the persisted setpoint: the source multiplies the product by 1e-3 and prints it as mW.
  With 0.5 A persisted, a limit of 4 V and 5 V measured, the figure printed is 1/400, where
  the product is 2.5 (W, that is 2500 mW).
\<close>

theorem measVoltage_power_estimate:
  "measVoltage (echo_instrument ''5,0.1'') (running_driver exact_machine (1 / 1000) (1 / 2))
     = Inr (5, (running_driver exact_machine (1 / 1000) (1 / 2))
                 \<lparr>printed :=
                    [[PStr ''Warning: Keithley compliance voltage of'', PNum 4, PStr ''reached.''],
                     [PStr ''Warning: You are sourcing'', PNum (1 / 400), PStr ''mW into the load.'']]\<rparr>)
   \<and> latestCurrentVal (running_driver exact_machine (1 / 1000) (1 / 2)) = 1 / 2
   \<and> (1 / 400 :: real) \<noteq> 5 * (1 / 2)"
  by (simp add: measVoltage_def query_echo index_def py_float_examples ge_limit_def
      running_driver_protection running_driver_printed running_driver_fields clip_def Let_def)

end
